theory Spec2Isabelle
  imports Complex_Main "HOL-Library.Multiset"
begin

section \<open>Errors\<close>

text \<open>
  Every exception the modelled code can raise is a value. The three \<open>RuntimeError\<close>
  constructors are the three \<open>raise RuntimeError(...)\<close> statements of
  \<open>itscube.py\<close>; the others are raised by the Python runtime and its libraries.
\<close>

datatype error =
    ValueError
  | IndexError
  | TypeError
  | KeyError
  | AttributeError
  | OverflowError
  | ZeroDivisionError
  | RuntimeError_NoGranulesFound
  | RuntimeError_DuplicateDiffersInAcquisition
  | RuntimeError_AttrExpected

fun bind_err :: "error + 'a \<Rightarrow> ('a \<Rightarrow> error + 'b) \<Rightarrow> error + 'b" where
  \<comment> \<open>sequencing: an exception raised by the first part skips the rest\<close>
  "bind_err (Inl e) f = Inl e"
| "bind_err (Inr x) f = f x"

section \<open>Dates\<close>

text \<open>
  A naive \<open>datetime\<close> is the number of microseconds since the start of day 0 of the
  proleptic Gregorian calendar (day 1 is 0001-01-01, as \<open>date.toordinal\<close> counts).
  A \<open>timedelta\<close> is a number of microseconds.
\<close>

type_synonym datetime = int
type_synonym timedelta = int

definition US_PER_DAY :: int where
  "US_PER_DAY = 86400000000"

definition timedelta_days :: "timedelta \<Rightarrow> int" where
  \<comment> \<open>the \<open>.days\<close> field of a normalised timedelta: the floor of the day count\<close>
  "timedelta_days td = td div US_PER_DAY"

definition mk_timedelta :: "int \<Rightarrow> int \<Rightarrow> timedelta" where
  \<comment> \<open>\<open>timedelta(days=half_days/2, milliseconds=ms)\<close>; half a day is a whole number of
      microseconds, so the float argument \<open>half_days/2\<close> is represented exactly\<close>
  "mk_timedelta half_days ms = (half_days * US_PER_DAY) div 2 + ms * 1000"

definition is_leap :: "int \<Rightarrow> bool" where
  "is_leap y = (y mod 4 = 0 \<and> (y mod 100 \<noteq> 0 \<or> y mod 400 = 0))"

definition days_in_month :: "int \<Rightarrow> int \<Rightarrow> int" where
  "days_in_month y m =
     (if m = 2 then (if is_leap y then 29 else 28)
      else if m = 4 \<or> m = 6 \<or> m = 9 \<or> m = 11 then 30 else 31)"

definition days_before_year :: "int \<Rightarrow> int" where
  "days_before_year y = (y - 1) * 365 + (y - 1) div 4 - (y - 1) div 100 + (y - 1) div 400"

fun days_before_month :: "int \<Rightarrow> nat \<Rightarrow> int" where
  "days_before_month y 0 = 0"
| "days_before_month y (Suc k) =
     (if k = 0 then 0 else days_before_month y k + days_in_month y (int k))"

definition mk_datetime :: "int \<Rightarrow> int \<Rightarrow> int \<Rightarrow> error + datetime" where
  \<comment> \<open>\<open>datetime(year, month, day)\<close>, midnight; out-of-range fields raise \<open>ValueError\<close>\<close>
  "mk_datetime y m d =
     (if y < 1 \<or> 9999 < y \<or> m < 1 \<or> 12 < m \<or> d < 1 \<or> days_in_month y m < d
      then Inl ValueError
      else Inr ((days_before_year y + days_before_month y (nat m) + d) * US_PER_DAY))"

definition is_digit :: "char \<Rightarrow> bool" where
  "is_digit c = (48 \<le> (of_char c :: nat) \<and> (of_char c :: nat) \<le> 57)"

definition digit_val :: "char \<Rightarrow> int" where
  "digit_val c = int (of_char c) - 48"

definition in_range :: "char \<Rightarrow> nat \<Rightarrow> nat \<Rightarrow> bool" where
  \<comment> \<open>a regular-expression class of digits, \<open>[lo-hi]\<close>\<close>
  "in_range c lo hi = (48 + lo \<le> (of_char c :: nat) \<and> (of_char c :: nat) \<le> 48 + hi)"

text \<open>
  \<open>datetime.strptime(s, "%Y%m%d")\<close> matches \<open>s\<close> against the regular expression
  \<open>(\d\d\d\d)(1[0-2]|0[1-9]|[1-9])(3[0-1]|[1-2]\d|0[1-9]|[1-9]| [1-9])\<close>, taking the
  first match in backtracking order, and raises \<open>ValueError\<close> when there is no match
  or when the match does not reach the end of \<open>s\<close>. The two functions below list the
  ways a month and a day can be read off the front of a string, in the order the
  alternatives are tried, each with the rest of the string.
\<close>

fun match_month :: "string \<Rightarrow> (int \<times> string) list" where
  "match_month (a # b # r) =
     (if a = CHR ''1'' \<and> in_range b 0 2 then [(10 + digit_val b, r)] else []) @
     (if a = CHR ''0'' \<and> in_range b 1 9 then [(digit_val b, r)] else []) @
     (if in_range a 1 9 then [(digit_val a, b # r)] else [])"
| "match_month [a] = (if in_range a 1 9 then [(digit_val a, [])] else [])"
| "match_month [] = []"

fun match_day :: "string \<Rightarrow> (int \<times> string) list" where
  "match_day (a # b # r) =
     (if a = CHR ''3'' \<and> in_range b 0 1 then [(30 + digit_val b, r)] else []) @
     (if in_range a 1 2 \<and> is_digit b then [(10 * digit_val a + digit_val b, r)] else []) @
     (if a = CHR ''0'' \<and> in_range b 1 9 then [(digit_val b, r)] else []) @
     (if in_range a 1 9 then [(digit_val a, b # r)] else []) @
     (if a = CHR '' '' \<and> in_range b 1 9 then [(digit_val b, r)] else [])"
| "match_day [a] = (if in_range a 1 9 then [(digit_val a, [])] else [])"
| "match_day [] = []"

definition strptime_Ymd :: "string \<Rightarrow> error + datetime" where
  "strptime_Ymd s =
     (case s of
        y1 # y2 # y3 # y4 # r \<Rightarrow>
          if is_digit y1 \<and> is_digit y2 \<and> is_digit y3 \<and> is_digit y4 then
            (case concat (map (\<lambda>(m, r'). map (\<lambda>(d, r''). (m, d, r'')) (match_day r'))
                              (match_month r)) of
               [] \<Rightarrow> Inl ValueError
             | (m, d, rest) # _ \<Rightarrow>
                 if rest \<noteq> [] then Inl ValueError
                 else mk_datetime
                        (1000 * digit_val y1 + 100 * digit_val y2 + 10 * digit_val y3 + digit_val y4)
                        m d)
          else Inl ValueError
      | _ \<Rightarrow> Inl ValueError)"

section \<open>File names\<close>

fun split_on :: "char \<Rightarrow> string \<Rightarrow> string list" where
  \<comment> \<open>\<open>s.split(sep)\<close> for a one-character separator: always at least one token\<close>
  "split_on sep [] = [[]]"
| "split_on sep (c # cs) =
     (case split_on sep cs of
        t # ts \<Rightarrow> if c = sep then [] # t # ts else (c # t) # ts
      | [] \<Rightarrow> [[c]])"

definition basename :: "string \<Rightarrow> string" where
  \<comment> \<open>\<open>os.path.basename\<close>: what follows the last \<open>/\<close>\<close>
  "basename p = last (split_on CHR ''/'' p)"

definition token :: "string list \<Rightarrow> nat \<Rightarrow> error + string" where
  \<comment> \<open>\<open>url_tokens[i]\<close> for a literal index \<open>i \<ge> 0\<close>\<close>
  "token ts i = (if i < length ts then Inr (ts ! i) else Inl IndexError)"

type_synonym granule_dates = "datetime \<times> datetime \<times> datetime \<times> datetime"

definition get_dates_from_filename :: "string \<Rightarrow> error + granule_dates" where
  "get_dates_from_filename filename =
     (let url_tokens = split_on CHR ''_'' (basename filename) in
      bind_err (token url_tokens 3) (\<lambda>t3.
      bind_err (strptime_Ymd t3) (\<lambda>url_acq_date_1.
      bind_err (token url_tokens 4) (\<lambda>t4.
      bind_err (strptime_Ymd t4) (\<lambda>url_proc_date_1.
      bind_err (token url_tokens 11) (\<lambda>t11.
      bind_err (strptime_Ymd t11) (\<lambda>url_acq_date_2.
      bind_err (token url_tokens 12) (\<lambda>t12.
      bind_err (strptime_Ymd t12) (\<lambda>url_proc_date_2.
        Inr (url_acq_date_1, url_proc_date_1, url_acq_date_2, url_proc_date_2))))))))))"

section \<open>Duplicate resolution\<close>

definition mid_date_of :: "datetime \<Rightarrow> datetime \<Rightarrow> datetime" where
  \<comment> \<open>lines 249-250 of \<open>skip_duplicate_granules\<close>\<close>
  "mid_date_of url_acq_1 url_acq_2 =
     (let day_separation = timedelta_days (url_acq_1 - url_acq_2)
      in url_acq_2 + mk_timedelta day_separation day_separation)"

fun list_index :: "'a list \<Rightarrow> 'a \<Rightarrow> nat option" where
  \<comment> \<open>\<open>x in xs\<close> together with \<open>xs.index(x)\<close>: the first position of \<open>x\<close>\<close>
  "list_index [] x = None"
| "list_index (y # ys) x =
     (if y = x then Some 0 else map_option Suc (list_index ys x))"

record dedup_state =
  url_mid_dates :: "datetime list"
  keep_urls :: "string list"
  skipped_double :: "string list"

text \<open>
  One iteration of the loop of \<open>skip_duplicate_granules\<close>. The function that reads
  the four dates off a file name is a parameter, so that the loop can be studied for
  any dates; the program runs it with \<open>get_dates_from_filename\<close>.
\<close>

definition dedup_step ::
  "(string \<Rightarrow> error + granule_dates) \<Rightarrow> string \<Rightarrow> dedup_state \<Rightarrow> error + dedup_state" where
  "dedup_step get_dates each_url st =
     (case get_dates each_url of
        Inl e \<Rightarrow> Inl e
      | Inr (url_acq_1, url_proc_1, url_acq_2, url_proc_2) \<Rightarrow>
          let mid_date = mid_date_of url_acq_1 url_acq_2 in
          (case list_index (url_mid_dates st) mid_date of
             Some index \<Rightarrow>
               if \<not> index < length (keep_urls st) then Inl IndexError
               else
                 let found_url = keep_urls st ! index in
                 (case get_dates found_url of
                    Inl e \<Rightarrow> Inl e
                  | Inr (found_acq_1, found_proc_1, found_acq_2, found_proc_2) \<Rightarrow>
                      if url_acq_1 \<noteq> found_acq_1 \<or> url_acq_2 \<noteq> found_acq_2
                      then Inl RuntimeError_DuplicateDiffersInAcquisition
                      else if url_proc_1 \<ge> found_proc_1 \<and> url_proc_2 \<ge> found_proc_2
                      then Inr (st\<lparr>keep_urls := (keep_urls st)[index := each_url],
                                   skipped_double := skipped_double st @ [found_url]\<rparr>)
                      else Inr (st\<lparr>skipped_double := skipped_double st @ [each_url]\<rparr>))
           | None \<Rightarrow>
               Inr (st\<lparr>url_mid_dates := url_mid_dates st @ [mid_date],
                        keep_urls := keep_urls st @ [each_url]\<rparr>)))"

fun dedup_loop ::
  "(string \<Rightarrow> error + granule_dates) \<Rightarrow> string list \<Rightarrow> dedup_state \<Rightarrow> error + dedup_state" where
  "dedup_loop get_dates [] st = Inr st"
| "dedup_loop get_dates (each_url # rest) st =
     (case dedup_step get_dates each_url st of
        Inl e \<Rightarrow> Inl e
      | Inr st' \<Rightarrow> dedup_loop get_dates rest st')"

definition dedup_init :: dedup_state where
  "dedup_init = \<lparr>url_mid_dates = [], keep_urls = [], skipped_double = []\<rparr>"

section \<open>Granules, layers and the cube object\<close>

text \<open>
  An attribute of a data variable, as the decoder hands it over: a number, a string or an
  array of numbers. \<open>subscript0\<close> is the Python expression \<open>a[0]\<close>.
\<close>

datatype attr_value = AttrNum real | AttrStr string | AttrArr "real list"

fun subscript0 :: "attr_value \<Rightarrow> error + attr_value" where
  "subscript0 (AttrArr (v # vs)) = Inr (AttrNum v)"
| "subscript0 (AttrArr []) = Inl IndexError"
| "subscript0 (AttrStr (c # cs)) = Inr (AttrStr [c])"
| "subscript0 (AttrStr []) = Inl IndexError"
| "subscript0 (AttrNum v) = Inl TypeError"

text \<open>
  A data variable of a granule is a grid of samples, rows along \<open>y\<close> and columns along
  \<open>x\<close>, where \<open>None\<close> is a missing sample (NaN), with its attributes. A dataset is what
  \<open>xr.open_dataset\<close> returns, reduced to what \<open>itscube.py\<close> reads from it:
  \<open>spatial_epsg\<close> is \<open>int(ds.UTM_Projection.spatial_epsg)\<close>, \<open>date_center\<close> is
  \<open>ds.img_pair_info.date_center\<close> and \<open>date_dt\<close> is \<open>int(ds.img_pair_info.date_dt)\<close>.
\<close>

record data_array =
  da_values :: "real option list list"
  da_attrs :: "string \<rightharpoonup> attr_value"

record dataset =
  spatial_epsg :: int
  date_center :: string
  date_dt :: int
  ds_x :: "real list"
  ds_y :: "real list"
  data_vars :: "string \<rightharpoonup> data_array"

datatype cube_data =
    Grids "real option list list list"
  | Column "attr_value list"
  | Strings "string list"

record cube_var =
  cv_data :: cube_data
  cv_attrs :: "string \<rightharpoonup> attr_value"

record cube =
  cube_mid_date :: "datetime option list"
  cube_vars :: "string \<rightharpoonup> cube_var"
  cube_attrs :: "(string \<times> string) list"

text \<open>
  The fields of an \<open>ITSCube\<close> object. \<open>x_bounds\<close> and \<open>y_bounds\<close> are
  \<open>(self.x.min, self.x.max)\<close> and \<open>(self.y.min, self.y.max)\<close>.
\<close>

record itscube =
  projection :: string
  x_bounds :: "real \<times> real"
  y_bounds :: "real \<times> real"
  ds :: "dataset list"
  dates :: "datetime option list"
  urls :: "string list"
  num_urls_from_api :: "nat option"
  skipped_proj_granules :: "int \<rightharpoonup> string list"
  skipped_empty_granules :: "string list"
  skipped_double_granules :: "string list"
  layers :: "cube option"

definition clear_vars :: "itscube \<Rightarrow> itscube" where
  "clear_vars self = self\<lparr>layers := None, dates := [], urls := [], ds := []\<rparr>"

definition clear :: "itscube \<Rightarrow> itscube" where
  "clear self =
     (clear_vars self)\<lparr>num_urls_from_api := None, skipped_proj_granules := Map.empty,
                        skipped_empty_granules := [], skipped_double_granules := []\<rparr>"

definition skip_duplicate_granules ::
  "itscube \<Rightarrow> string list \<Rightarrow> error + (string list \<times> itscube)" where
  "skip_duplicate_granules self found_urls =
     (case dedup_loop get_dates_from_filename found_urls dedup_init of
        Inl e \<Rightarrow> Inl e
      | Inr st \<Rightarrow>
          Inr (keep_urls st,
               self\<lparr>num_urls_from_api := Some (length found_urls),
                    skipped_double_granules := skipped_double st\<rparr>))"

definition py_prefix :: "int \<Rightarrow> 'a list \<Rightarrow> 'a list" where
  \<comment> \<open>the slice \<open>xs[:n]\<close>; a negative \<open>n\<close> counts from the end\<close>
  "py_prefix n xs = (if 0 \<le> n then take (nat n) xs else take (nat (int (length xs) + n)) xs)"

text \<open>
  \<open>request_granules\<close>. The answer of the search API, a collaborator, is the parameter
  \<open>api_urls\<close>: the list \<open>[each['url'] for each in itslive_ui.get_granule_urls(params)]\<close>.
\<close>

definition request_granules ::
  "itscube \<Rightarrow> string list \<Rightarrow> int option \<Rightarrow> error + (string list \<times> itscube)" where
  "request_granules self api_urls num_granules =
     (let found_urls = api_urls in
      if length found_urls = 0 then Inl RuntimeError_NoGranulesFound
      else
        let found_urls =
              (case num_granules of
                 None \<Rightarrow> found_urls
               | Some n \<Rightarrow> if n \<noteq> 0 then py_prefix n found_urls else found_urls)
        in skip_duplicate_granules self found_urls)"

subsection \<open>Pre-processing one granule\<close>

definition digit_char :: "nat \<Rightarrow> char" where
  "digit_char d = ''0123456789'' ! d"

fun str_nat :: "nat \<Rightarrow> string" where
  "str_nat n =
     (if n < 10 then [digit_char n]
      else str_nat (n div 10) @ [digit_char (n mod 10)])"

declare str_nat.simps [simp del]

definition str_int :: "int \<Rightarrow> string" where
  \<comment> \<open>\<open>str(i)\<close> for a Python int\<close>
  "str_int i = (if i < 0 then CHR ''-'' # str_nat (nat (- i)) else str_nat (nat i))"

definition MIN_DATETIME :: datetime where
  "MIN_DATETIME = US_PER_DAY"

definition MAX_DATETIME :: datetime where
  "MAX_DATETIME = 3652059 * US_PER_DAY + (US_PER_DAY - 1)"

definition datetime_add :: "datetime \<Rightarrow> timedelta \<Rightarrow> error + datetime" where
  \<comment> \<open>\<open>d + td\<close>: a result outside years 1 to 9999 raises \<open>OverflowError\<close>\<close>
  "datetime_add d td =
     (if d + td < MIN_DATETIME \<or> MAX_DATETIME < d + td then Inl OverflowError
      else Inr (d + td))"

definition in_bounds :: "real \<times> real \<Rightarrow> real \<Rightarrow> bool" where
  "in_bounds b c = (fst b \<le> c \<and> c \<le> snd b)"

definition keep_where :: "bool list \<Rightarrow> 'a list \<Rightarrow> 'a list" where
  "keep_where sel xs = map snd (filter fst (zip sel xs))"

text \<open>
  \<open>ds.where(mask_lon & mask_lat, drop=True)\<close>: the mask of a cell is the conjunction of
  its column's and its row's mask, and a coordinate label is dropped when no cell on it
  is selected.
\<close>

definition where_drop :: "bool list \<Rightarrow> bool list \<Rightarrow> dataset \<Rightarrow> dataset" where
  "where_drop mask_lon mask_lat d =
     (let cols = map (\<lambda>b. b \<and> list_ex id mask_lat) mask_lon;
          rows = map (\<lambda>b. b \<and> list_ex id mask_lon) mask_lat
      in d\<lparr>ds_x := keep_where cols (ds_x d),
            ds_y := keep_where rows (ds_y d),
            data_vars := (\<lambda>name.
               map_option (\<lambda>a. a\<lparr>da_values := map (keep_where cols) (keep_where rows (da_values a))\<rparr>)
                 (data_vars d name))\<rparr>)"

definition any_notnull :: "real option list list \<Rightarrow> bool" where
  \<comment> \<open>\<open>np.any(a.notnull())\<close>\<close>
  "any_notnull g = list_ex (list_ex (\<lambda>c. c \<noteq> None)) g"

type_synonym layer_result = "bool \<times> int \<times> datetime option \<times> string \<times> dataset option"

definition preprocess_dataset :: "itscube \<Rightarrow> dataset \<Rightarrow> string \<Rightarrow> error + layer_result" where
  "preprocess_dataset self d ds_url =
     (if str_int (spatial_epsg d) = projection self then
        (case strptime_Ymd (date_center d) of
           Inl e \<Rightarrow> Inl e
         | Inr center \<Rightarrow>
             (case datetime_add center (date_dt d * 1000) of
                Inl e \<Rightarrow> Inl e
              | Inr mid_date \<Rightarrow>
                  let mask_lon = map (in_bounds (x_bounds self)) (ds_x d);
                      mask_lat = map (in_bounds (y_bounds self)) (ds_y d);
                      mask_data = where_drop mask_lon mask_lat d
                  in (case data_vars mask_data ''v'' of
                        None \<Rightarrow> Inl AttributeError
                      | Some v \<Rightarrow>
                          if any_notnull (da_values v)
                          then Inr (False, spatial_epsg d, Some mid_date, ds_url, Some mask_data)
                          else Inr (True, spatial_epsg d, None, ds_url, None))))
      else Inr (False, spatial_epsg d, None, ds_url, None))"

definition add_layer :: "itscube \<Rightarrow> layer_result \<Rightarrow> itscube" where
  "add_layer self r =
     (case r of (is_empty, layer_projection, mid_date, url, data) \<Rightarrow>
        (case data of
           Some layer \<Rightarrow>
             self\<lparr>dates := dates self @ [mid_date],
                  ds := ds self @ [layer],
                  urls := urls self @ [url]\<rparr>
         | None \<Rightarrow>
             if is_empty
             then self\<lparr>skipped_empty_granules := skipped_empty_granules self @ [url]\<rparr>
             else self\<lparr>skipped_proj_granules :=
                         (skipped_proj_granules self)
                           (layer_projection \<mapsto>
                              (case skipped_proj_granules self layer_projection of
                                 None \<Rightarrow> [] | Some l \<Rightarrow> l) @ [url])\<rparr>))"

definition get_data_var_attr ::
  "dataset \<Rightarrow> string \<Rightarrow> string \<Rightarrow> attr_value option \<Rightarrow> error + attr_value" where
  "get_data_var_attr d var_name attr_name missing_value =
     (case (case data_vars d var_name of
              None \<Rightarrow> None
            | Some var \<Rightarrow> da_attrs var attr_name) of
        Some a \<Rightarrow> subscript0 a
      | None \<Rightarrow>
          (case missing_value of
             None \<Rightarrow> Inl RuntimeError_AttrExpected
           | Some m \<Rightarrow> Inr m))"

subsection \<open>Combining the layers of a batch\<close>

text \<open>The names and values of class \<open>DataVars\<close> and \<open>Coords\<close> that the model uses.\<close>

abbreviation MISSING_VALUE_ATTR :: string where "MISSING_VALUE_ATTR \<equiv> ''missing_value''"
abbreviation FILL_VALUE_ATTR :: string where "FILL_VALUE_ATTR \<equiv> ''_FillValue''"
abbreviation DESCRIPTION :: string where "DESCRIPTION \<equiv> ''description''"
abbreviation GRID_MAPPING :: string where "GRID_MAPPING \<equiv> ''grid_mapping''"
abbreviation STABLE_COUNT :: string where "STABLE_COUNT \<equiv> ''stable_count''"
abbreviation STABLE_SHIFT :: string where "STABLE_SHIFT \<equiv> ''stable_shift''"
abbreviation FLAG_STABLE_SHIFT_MEANINGS :: string where
  "FLAG_STABLE_SHIFT_MEANINGS \<equiv> ''flag_stable_shift_meanings''"
abbreviation STABLE_APPLY_DATE :: string where "STABLE_APPLY_DATE \<equiv> ''stable_apply_date''"
abbreviation V :: string where "V \<equiv> ''v''"
abbreviation MAP_SCALE_CORRECTED :: string where "MAP_SCALE_CORRECTED \<equiv> ''map_scale_corrected''"
abbreviation VX :: string where "VX \<equiv> ''vx''"
abbreviation VX_ERROR :: string where "VX_ERROR \<equiv> ''vx_error''"
abbreviation FLAG_STABLE_SHIFT :: string where "FLAG_STABLE_SHIFT \<equiv> ''flag_stable_shift''"
abbreviation STABLE_RMSE :: string where "STABLE_RMSE \<equiv> ''stable_rmse''"
abbreviation VY :: string where "VY \<equiv> ''vy''"
abbreviation VY_ERROR :: string where "VY_ERROR \<equiv> ''vy_error''"
abbreviation CHIP_SIZE_HEIGHT :: string where "CHIP_SIZE_HEIGHT \<equiv> ''chip_size_height''"
abbreviation CHIP_SIZE_COORDINATES :: string where
  "CHIP_SIZE_COORDINATES \<equiv> ''chip_size_coordinates''"
abbreviation CHIP_SIZE_WIDTH :: string where "CHIP_SIZE_WIDTH \<equiv> ''chip_size_width''"
abbreviation INTERP_MASK :: string where "INTERP_MASK \<equiv> ''interp_mask''"
abbreviation V_ERROR :: string where "V_ERROR \<equiv> ''v_error''"
abbreviation URL :: string where "URL \<equiv> ''url''"
abbreviation MID_DATE :: string where "MID_DATE \<equiv> ''mid_date''"
abbreviation VX_STABLE_SHIFT :: string where "VX_STABLE_SHIFT \<equiv> ''vx_stable_shift''"
abbreviation VY_STABLE_SHIFT :: string where "VY_STABLE_SHIFT \<equiv> ''vy_stable_shift''"

definition MISSING_BYTE :: real where "MISSING_BYTE = 0"
definition MISSING_VALUE :: real where "MISSING_VALUE = - 32767"

definition V_DESCRIPTION_STR :: string where
  "V_DESCRIPTION_STR = ''velocity magnitude''"
definition VX_DESCRIPTION_STR :: string where
  "VX_DESCRIPTION_STR = ''velocity component in x direction''"
definition VY_DESCRIPTION_STR :: string where
  "VY_DESCRIPTION_STR = ''velocity component in y direction''"
definition CHIP_SIZE_COORDINATES_STR :: string where
  "CHIP_SIZE_COORDINATES_STR = ''Optical data: chip_size_coordinates = '' @
     [CHR 0x27] @ ''image projection geometry: width = x, height = y'' @ [CHR 0x27] @
     ''. Radar data: chip_size_coordinates = '' @
     [CHR 0x27] @ ''radar geometry: width = range, height = azimuth'' @ [CHR 0x27]"
definition CHIP_SIZE_HEIGHT_STR :: string where
  "CHIP_SIZE_HEIGHT_STR = ''height of search window''"
definition FLAG_STABLE_SHIFT_MEANINGS_STR :: string where
  "FLAG_STABLE_SHIFT_MEANINGS_STR =
     ''flag for applying velocity bias correction over stable surfaces '' @
     ''(stationary or slow-flowing surfaces with velocity < 15 m/yr): '' @
     ''0 = there is no stable surface available and no correction is applied; '' @
     ''1 = there are stable surfaces and velocity bias is corrected;''"

fun map_err :: "('a \<Rightarrow> error + 'b) \<Rightarrow> 'a list \<Rightarrow> error + 'b list" where
  \<comment> \<open>a list comprehension whose element expression may raise\<close>
  "map_err f [] = Inr []"
| "map_err f (x # xs) =
     (case f x of
        Inl e \<Rightarrow> Inl e
      | Inr y \<Rightarrow> (case map_err f xs of Inl e \<Rightarrow> Inl e | Inr ys \<Rightarrow> Inr (y # ys)))"

definition get_var :: "dataset \<Rightarrow> string \<Rightarrow> error + data_array" where
  \<comment> \<open>the attribute access \<open>ds.name\<close>\<close>
  "get_var d name = (case data_vars d name of None \<Rightarrow> Inl AttributeError | Some a \<Rightarrow> Inr a)"

definition xr_concat :: "data_array list \<Rightarrow> error + cube_var" where
  \<comment> \<open>\<open>xr.concat(arrays, mid_date_coord)\<close>: one grid per layer, the attributes of the
      first array; nothing to concatenate raises \<open>ValueError\<close>\<close>
  "xr_concat arrays =
     (case arrays of
        [] \<Rightarrow> Inl ValueError
      | a # _ \<Rightarrow> Inr \<lparr>cv_data = Grids (map da_values arrays), cv_attrs = da_attrs a\<rparr>)"

definition concat_var :: "dataset list \<Rightarrow> string \<Rightarrow> error + cube_var" where
  \<comment> \<open>\<open>xr.concat([ds.name for ds in self.ds], mid_date_coord)\<close>\<close>
  "concat_var dss name =
     (case map_err (\<lambda>d. get_var d name) dss of Inl e \<Rightarrow> Inl e | Inr arrays \<Rightarrow> xr_concat arrays)"

definition attr_column ::
  "dataset list \<Rightarrow> string \<Rightarrow> string \<Rightarrow> attr_value option \<Rightarrow> error + cube_var" where
  \<comment> \<open>\<open>xr.DataArray(data=[self.get_data_var_attr(ds, var, attr, mv) for ds in self.ds], ...)\<close>\<close>
  "attr_column dss var_name attr_name missing_value =
     (case map_err (\<lambda>d. get_data_var_attr d var_name attr_name missing_value) dss of
        Inl e \<Rightarrow> Inl e
      | Inr vals \<Rightarrow> Inr \<lparr>cv_data = Column vals, cv_attrs = Map.empty\<rparr>)"

definition grid_mapping_column :: "dataset list \<Rightarrow> error + cube_var" where
  \<comment> \<open>\<open>xr.DataArray(data=[ds.v.attrs[DataVars.GRID_MAPPING] for ds in self.ds], ...)\<close>\<close>
  "grid_mapping_column dss =
     (case map_err (\<lambda>d. case get_var d V of
                          Inl e \<Rightarrow> Inl e
                        | Inr a \<Rightarrow> (case da_attrs a GRID_MAPPING of
                                     None \<Rightarrow> Inl KeyError | Some g \<Rightarrow> Inr g)) dss of
        Inl e \<Rightarrow> Inl e
      | Inr vals \<Rightarrow> Inr \<lparr>cv_data = Column vals, cv_attrs = Map.empty\<rparr>)"

definition drop_vars :: "string \<Rightarrow> dataset list \<Rightarrow> error + dataset list" where
  \<comment> \<open>\<open>[ds.drop_vars(name) for ds in self.ds]\<close>\<close>
  "drop_vars name dss =
     map_err (\<lambda>d. if data_vars d name = None then Inl ValueError
                  else Inr (d\<lparr>data_vars := (data_vars d)(name := None)\<rparr>)) dss"

definition set_var :: "cube \<Rightarrow> string \<Rightarrow> cube_var \<Rightarrow> cube" where
  \<comment> \<open>\<open>self.layers[name] = var\<close>\<close>
  "set_var L name var = L\<lparr>cube_vars := (cube_vars L)(name \<mapsto> var)\<rparr>"

definition has_attr :: "cube \<Rightarrow> string \<Rightarrow> string \<Rightarrow> bool" where
  \<comment> \<open>\<open>attr in self.layers[name].attrs\<close>\<close>
  "has_attr L name attr =
     (case cube_vars L name of None \<Rightarrow> False | Some var \<Rightarrow> cv_attrs var attr \<noteq> None)"

definition set_attr :: "cube \<Rightarrow> string \<Rightarrow> string \<Rightarrow> attr_value \<Rightarrow> cube" where
  \<comment> \<open>\<open>self.layers[name].attrs[attr] = val\<close>, for a variable that has just been assigned\<close>
  "set_attr L name attr val =
     (case cube_vars L name of
        None \<Rightarrow> L
      | Some var \<Rightarrow> L\<lparr>cube_vars := (cube_vars L)(name \<mapsto> var\<lparr>cv_attrs := (cv_attrs var)(attr \<mapsto> val)\<rparr>)\<rparr>)"

definition del_attr_if_present :: "cube \<Rightarrow> string \<Rightarrow> string \<Rightarrow> cube" where
  \<comment> \<open>\<open>if attr in self.layers[name].attrs: del self.layers[name].attrs[attr]\<close>\<close>
  "del_attr_if_present L name attr =
     (case cube_vars L name of
        None \<Rightarrow> L
      | Some var \<Rightarrow> L\<lparr>cube_vars := (cube_vars L)(name \<mapsto> var\<lparr>cv_attrs := (cv_attrs var)(attr := None)\<rparr>)\<rparr>)"

definition set_missing_on_first :: "bool \<Rightarrow> cube \<Rightarrow> string \<Rightarrow> cube" where
  \<comment> \<open>\<open>if is_first_write: if MISSING_VALUE_ATTR not in self.layers[name].attrs: ...\<close>\<close>
  "set_missing_on_first is_first_write L name =
     (if is_first_write then
        (if \<not> has_attr L name MISSING_VALUE_ATTR
         then set_attr L name MISSING_VALUE_ATTR (AttrNum MISSING_VALUE) else L)
      else L)"

definition get_data_var :: "dataset \<Rightarrow> dataset \<Rightarrow> string \<Rightarrow> data_array" where
  \<comment> \<open>the variable when the layer has it, otherwise an array of missing samples on the
      grid of the cube's \<open>v\<close>, here the grid of the layer \<open>shape\<close>\<close>
  "get_data_var shape d var_name =
     (case data_vars d var_name of
        Some a \<Rightarrow> a
      | None \<Rightarrow> \<lparr>da_values = replicate (length (ds_y shape)) (replicate (length (ds_x shape)) None),
                 da_attrs = Map.empty\<rparr>)"

definition encoding_settings :: "(string \<times> (string \<times> real) list) list" where
  "encoding_settings =
     [(V, [(FILL_VALUE_ATTR, MISSING_VALUE)]),
      (MAP_SCALE_CORRECTED, [(FILL_VALUE_ATTR, MISSING_BYTE)]),
      (VX, [(FILL_VALUE_ATTR, MISSING_VALUE)]),
      (VX_ERROR, [(FILL_VALUE_ATTR, MISSING_VALUE)]),
      (VY, [(FILL_VALUE_ATTR, MISSING_VALUE)]),
      (VY_ERROR, [(FILL_VALUE_ATTR, MISSING_VALUE)]),
      (V_ERROR, [(FILL_VALUE_ATTR, MISSING_VALUE)])]"

text \<open>
  The two calls of the store: \<open>self.layers.to_zarr(output_dir, encoding=...)\<close> and
  \<open>self.layers.to_zarr(output_dir, append_dim=...)\<close>. The store is a collaborator: its
  answer to a call is the parameter \<open>to_zarr\<close>, \<open>None\<close> when the call returns and the
  exception when it raises.
\<close>

datatype zarr_call =
    ToZarrCreate cube "(string \<times> (string \<times> real) list) list"
  | ToZarrAppend cube string

definition new_layers :: "itscube \<Rightarrow> cube" where
  \<comment> \<open>the \<open>xr.Dataset(...)\<close> that \<open>combine_layers\<close> starts from\<close>
  "new_layers self =
     \<lparr>cube_mid_date = dates self,
      cube_vars = [URL \<mapsto> \<lparr>cv_data = Strings (urls self), cv_attrs = Map.empty\<rparr>],
      cube_attrs =
        [(''title'', ''ITS_LIVE datacube of velocity pairs''),
         (''author'', ''Alex S. Gardner, JPL/NASA''),
         (''institution'',
          ''NASA Jet Propulsion Laboratory (JPL), California Institute of Technology''),
         (''GDAL_AREA_OR_POINT'', ''Area''),
         (''projection'', projection self)]\<rparr>"

text \<open>
  \<open>combine_layers\<close> is split where the source has its comments \<open># Process 'v'\<close>,
  \<open># Process 'vx'\<close>, \<open># Process 'vy'\<close> and \<open># Process chip_size_height\<close>. Each part
  takes the cube built so far and the layers (\<open>self.ds\<close>) and returns both, updated.
  Building the cube fails with \<open>ValueError\<close> when \<open>self.dates\<close>, \<open>self.ds\<close> and
  \<open>self.urls\<close> are not of one length.
\<close>

definition combine_v :: "bool \<Rightarrow> itscube \<Rightarrow> error + (cube \<times> dataset list)" where
  "combine_v is_first_write self =
     bind_err (concat_var (ds self) V) (\<lambda>v_layers.
     if length (ds self) \<noteq> length (dates self) \<or> length (urls self) \<noteq> length (dates self)
     then Inl ValueError
     else
       let L = new_layers self;
           L = set_var L V v_layers;
           L = set_attr L V DESCRIPTION (AttrStr V_DESCRIPTION_STR);
           L = set_missing_on_first is_first_write L V
       in
       bind_err (grid_mapping_column (ds self)) (\<lambda>gm.
       let L = set_var L GRID_MAPPING gm;
           L = del_attr_if_present L V GRID_MAPPING
       in
       bind_err (attr_column (ds self) V MAP_SCALE_CORRECTED (Some (AttrNum MISSING_BYTE))) (\<lambda>msc.
       let L = set_var L MAP_SCALE_CORRECTED msc;
           L = (if is_first_write
                then set_attr L MAP_SCALE_CORRECTED MISSING_VALUE_ATTR (AttrNum MISSING_BYTE)
                else L);
           L = del_attr_if_present L V MAP_SCALE_CORRECTED
       in
       bind_err (drop_vars V (ds self)) (\<lambda>dss. Inr (L, dss)))))"

definition combine_vx :: "bool \<Rightarrow> cube \<times> dataset list \<Rightarrow> error + (cube \<times> dataset list)" where
  "combine_vx is_first_write Ld =
     (let L = fst Ld; dss = snd Ld in
      bind_err (concat_var dss VX) (\<lambda>vx_layers.
      let L = set_var L VX vx_layers;
          L = set_attr L VX DESCRIPTION (AttrStr VX_DESCRIPTION_STR);
          L = set_missing_on_first is_first_write L VX;
          L = del_attr_if_present L VX STABLE_APPLY_DATE
      in
      bind_err (attr_column dss VX VX_ERROR (Some (AttrNum MISSING_VALUE))) (\<lambda>c.
      let L = set_var L VX_ERROR c;
          L = del_attr_if_present L VX VX_ERROR
      in
      bind_err (attr_column dss VX STABLE_RMSE (Some (AttrNum MISSING_VALUE))) (\<lambda>c.
      let L = set_var L STABLE_RMSE c;
          L = del_attr_if_present L VX STABLE_RMSE
      in
      bind_err (attr_column dss VX STABLE_COUNT None) (\<lambda>c.
      let L = set_var L STABLE_COUNT c;
          L = del_attr_if_present L VX STABLE_COUNT
      in
      bind_err (attr_column dss VX FLAG_STABLE_SHIFT (Some (AttrNum 0))) (\<lambda>c.
      let L = set_var L FLAG_STABLE_SHIFT c;
          L = set_attr L FLAG_STABLE_SHIFT FLAG_STABLE_SHIFT_MEANINGS
                (AttrStr FLAG_STABLE_SHIFT_MEANINGS_STR)
      in
      bind_err (attr_column dss VX STABLE_SHIFT None) (\<lambda>c.
      let L = set_var L VX_STABLE_SHIFT c;
          L = del_attr_if_present L VX STABLE_SHIFT
      in
      bind_err (drop_vars VX dss) (\<lambda>dss'. Inr (L, dss')))))))))"

definition combine_vy :: "bool \<Rightarrow> cube \<times> dataset list \<Rightarrow> error + (cube \<times> dataset list)" where
  "combine_vy is_first_write Ld =
     (let L = fst Ld; dss = snd Ld in
      bind_err (concat_var dss VY) (\<lambda>vy_layers.
      let L = set_var L VY vy_layers;
          L = set_attr L VY DESCRIPTION (AttrStr VY_DESCRIPTION_STR);
          L = set_missing_on_first is_first_write L VY;
          L = del_attr_if_present L VY STABLE_APPLY_DATE
      in
      bind_err (attr_column dss VY VY_ERROR (Some (AttrNum MISSING_VALUE))) (\<lambda>c.
      let L = set_var L VY_ERROR c;
          L = del_attr_if_present L VY VY_ERROR
      in
      bind_err (attr_column dss VY STABLE_SHIFT None) (\<lambda>c.
      let L = set_var L VY_STABLE_SHIFT c;
          L = del_attr_if_present L VY STABLE_SHIFT
      in
      bind_err (drop_vars VY dss) (\<lambda>dss'. Inr (L, dss'))))))"

definition combine_rest ::
  "bool \<Rightarrow> dataset \<Rightarrow> cube \<times> dataset list \<Rightarrow> error + (cube \<times> dataset list)" where
  "combine_rest is_first_write shape Ld =
     (let L = fst Ld; dss = snd Ld in
      bind_err (concat_var dss CHIP_SIZE_HEIGHT) (\<lambda>c.
      let L = set_var L CHIP_SIZE_HEIGHT c;
          L = set_attr L CHIP_SIZE_HEIGHT CHIP_SIZE_COORDINATES (AttrStr CHIP_SIZE_COORDINATES_STR);
          L = set_attr L CHIP_SIZE_HEIGHT DESCRIPTION (AttrStr CHIP_SIZE_HEIGHT_STR)
      in
      bind_err (drop_vars CHIP_SIZE_HEIGHT dss) (\<lambda>dss.
      bind_err (concat_var dss CHIP_SIZE_WIDTH) (\<lambda>c.
      let L = set_var L CHIP_SIZE_WIDTH c in
      bind_err (drop_vars CHIP_SIZE_WIDTH dss) (\<lambda>dss.
      bind_err (concat_var dss INTERP_MASK) (\<lambda>c.
      let L = set_var L INTERP_MASK c in
      bind_err (drop_vars INTERP_MASK dss) (\<lambda>dss.
      bind_err (xr_concat (map (\<lambda>d. get_data_var shape d V_ERROR) dss)) (\<lambda>c.
      let L = set_var L V_ERROR c;
          L = set_missing_on_first is_first_write L V_ERROR
      in Inr (L, dss)))))))))"

definition write_call :: "bool \<Rightarrow> cube \<Rightarrow> zarr_call" where
  \<comment> \<open>the \<open>to_zarr\<close> call at the end of \<open>combine_layers\<close>\<close>
  "write_call is_first_write L =
     (if is_first_write then ToZarrCreate L encoding_settings else ToZarrAppend L MID_DATE)"

definition combine_layers ::
  "(zarr_call \<Rightarrow> error option) \<Rightarrow> itscube \<Rightarrow> bool \<Rightarrow> error + (itscube \<times> zarr_call)" where
  "combine_layers to_zarr self is_first_write =
     bind_err (combine_v is_first_write self) (\<lambda>Ld.
     bind_err (combine_vx is_first_write Ld) (\<lambda>Ld.
     bind_err (combine_vy is_first_write Ld) (\<lambda>Ld.
     bind_err (combine_rest is_first_write (hd (ds self)) Ld) (\<lambda>Ld.
     let call = write_call is_first_write (fst Ld) in
     (case to_zarr call of
        Some e \<Rightarrow> Inl e
      | None \<Rightarrow> Inr (clear_vars (self\<lparr>layers := Some (fst Ld), ds := snd Ld\<rparr>), call))))))"

definition format_stats :: "itscube \<Rightarrow> error option" where
  \<comment> \<open>only the failures of \<open>format_stats\<close>: the percentages divide by \<open>num_urls\<close>\<close>
  "format_stats self =
     (case num_urls_from_api self of
        None \<Rightarrow> Some TypeError
      | Some n \<Rightarrow> if n = 0 then Some ZeroDivisionError else None)"

subsection \<open>Building a cube\<close>

function str_replace :: "string \<Rightarrow> string \<Rightarrow> string \<Rightarrow> string" where
  \<comment> \<open>\<open>s.replace(old, new)\<close> for a non-empty \<open>old\<close>\<close>
  "str_replace old new s =
     (if s = [] \<or> old = [] then s
      else if take (length old) s = old
      then new @ str_replace old new (drop (length old) s)
      else hd s # str_replace old new (tl s))"
  by pat_completeness auto
termination
  by (relation "measure (\<lambda>(old, new, s). length s)") (auto simp: neq_Nil_conv)

definition S3_PREFIX :: string where "S3_PREFIX = ''s3://''"
definition HTTP_PREFIX :: string where "HTTP_PREFIX = ''http://''"
definition PATH_URL :: string where "PATH_URL = ''.s3.amazonaws.com''"

text \<open>
  What a run does to the outside: the paths it opens, in order, and the calls of the
  store that returned, in order. The collaborators are \<open>open_dataset\<close> (opening and
  decoding the granule at a path, \<open>s3.open\<close> and \<open>xr.open_dataset\<close>) and
  \<open>to_zarr\<close>; \<open>NUM_GRANULES_TO_WRITE\<close> is the class constant.
\<close>

record world =
  opened :: "string list"
  written :: "zarr_call list"

record env =
  open_dataset :: "string \<Rightarrow> error + dataset"
  to_zarr :: "zarr_call \<Rightarrow> error option"
  NUM_GRANULES_TO_WRITE :: int

text \<open>
  The body of the loop of \<open>create\<close>, and the loop. The state of the loop is
  \<open>self\<close>, \<open>is_first_write\<close> and the world; when the body raises, the world is
  what had been done until then.
\<close>

type_synonym create_state = "itscube \<times> bool \<times> world"

definition create_step :: "env \<Rightarrow> string \<Rightarrow> create_state \<Rightarrow> error \<times> world + create_state" where
  "create_step E each_url st =
     (let self = fst st; is_first_write = fst (snd st); w = snd (snd st);
          s3_path = str_replace HTTP_PREFIX S3_PREFIX each_url;
          s3_path = str_replace PATH_URL [] s3_path;
          w = w\<lparr>opened := opened w @ [s3_path]\<rparr>
      in
      (case open_dataset E s3_path of
         Inl e \<Rightarrow> Inl (e, w)
       | Inr d \<Rightarrow>
           (case preprocess_dataset self d each_url of
              Inl e \<Rightarrow> Inl (e, w)
            | Inr results \<Rightarrow>
                let self = add_layer self results in
                if int (length (urls self)) = NUM_GRANULES_TO_WRITE E then
                  (case combine_layers (to_zarr E) self is_first_write of
                     Inl e \<Rightarrow> Inl (e, w)
                   | Inr r \<Rightarrow> Inr (fst r, False, w\<lparr>written := written w @ [snd r]\<rparr>))
                else Inr (self, is_first_write, w))))"

fun create_loop :: "env \<Rightarrow> string list \<Rightarrow> create_state \<Rightarrow> error \<times> world + create_state" where
  "create_loop E [] st = Inr st"
| "create_loop E (each_url # rest) st =
     (case create_step E each_url st of
        Inl ew \<Rightarrow> Inl ew
      | Inr st' \<Rightarrow> create_loop E rest st')"

text \<open>
  \<open>create\<close>, from \<open>self.clear()\<close> on (removing an output directory that exists is not
  modelled). \<open>api_urls\<close> is the answer of the search API, as in \<open>request_granules\<close>.
  The result is the exception or the pair of the returned list and \<open>self\<close>, with the
  world.
\<close>

definition create_flush :: "env \<Rightarrow> create_state \<Rightarrow> error \<times> world + create_state" where
  \<comment> \<open>\<open>if len(self.urls): self.combine_layers(output_dir, is_first_write)\<close>\<close>
  "create_flush E st =
     (let self = fst st; is_first_write = fst (snd st); w = snd (snd st) in
      if length (urls self) \<noteq> 0 then
        (case combine_layers (to_zarr E) self is_first_write of
           Inl e \<Rightarrow> Inl (e, w)
         | Inr r \<Rightarrow> Inr (fst r, is_first_write, w\<lparr>written := written w @ [snd r]\<rparr>))
      else Inr st)"

definition create ::
  "env \<Rightarrow> itscube \<Rightarrow> string list \<Rightarrow> int option \<Rightarrow> world
     \<Rightarrow> error \<times> world + (string list \<times> itscube) \<times> world" where
  "create E self api_urls num_granules w =
     (let self = clear self in
      (case request_granules self api_urls num_granules of
         Inl e \<Rightarrow> Inl (e, w)
       | Inr fs \<Rightarrow>
           (case create_loop E (fst fs) (snd fs, True, w) of
              Inl ew \<Rightarrow> Inl ew
            | Inr st \<Rightarrow>
                (case create_flush E st of
                   Inl ew \<Rightarrow> Inl ew
                 | Inr st' \<Rightarrow>
                     (case format_stats (fst st') of
                        Some e \<Rightarrow> Inl (e, snd (snd st'))
                      | None \<Rightarrow> Inr ((fst fs, fst st'), snd (snd st')))))))"

text \<open>
  The fill-value metadata of the store after a sequence of calls, by the contract of the
  store: creating it fixes the metadata to the encoding given, appending inherits it.
\<close>

fun store_fill_values ::
  "zarr_call list \<Rightarrow> (string \<times> (string \<times> real) list) list option
     \<Rightarrow> (string \<times> (string \<times> real) list) list option" where
  "store_fill_values [] m = m"
| "store_fill_values (ToZarrCreate L enc # calls) m = store_fill_values calls (Some enc)"
| "store_fill_values (ToZarrAppend L append_dim # calls) m = store_fill_values calls m"

section \<open>Notions used in the statements\<close>

text \<open>
  The mid-point timestamp and the acquisition pair of a URL, for a given way of reading
  the dates off it; \<open>None\<close> when the dates cannot be read.
\<close>

definition url_mid_date :: "(string \<Rightarrow> error + granule_dates) \<Rightarrow> string \<Rightarrow> datetime option" where
  "url_mid_date gd u =
     (case gd u of Inl e \<Rightarrow> None | Inr d \<Rightarrow> Some (mid_date_of (fst d) (fst (snd (snd d)))))"




text \<open>
  The two candidates of the scenario: acquisitions on 2020-01-01 and 2020-01-10, processed
  on 2020-02-01 (\<open>scenario_A\<close>) and on 2020-02-05 (\<open>scenario_B\<close>). \<open>cube0\<close> is a cube
  object as \<open>__init__\<close> leaves it, for the projection \<open>32628\<close>.
\<close>

definition scenario_A :: string where
  "scenario_A = ''data/LC08_L1TP_011002_20200101_20200201_01_T1_X_LC08_L1TP_011002_20200110_20200201_01_T1_G0240V01_P038.nc''"


definition scenario_C :: string where
  \<comment> \<open>acquisitions on 2020-01-03 and 2020-01-08: the calendar mid-date of \<open>scenario_A\<close>\<close>
  "scenario_C = ''data/LC08_L1TP_011002_20200103_20200201_01_T1_X_LC08_L1TP_011002_20200108_20200201_01_T1_G0240V01_P038.nc''"



section \<open>Duplicate resolution: the invariant of the loop\<close>

lemma list_index_None: "list_index xs x = None \<longleftrightarrow> x \<notin> set xs"
  by (induction xs) auto



lemma list_index_mem: "x \<in> set xs \<Longrightarrow> \<exists>i. list_index xs x = Some i"
  using list_index_None [of xs x] by (cases "list_index xs x") auto










section \<open>Duplicate resolution: the scenario and the conflicts\<close>

lemma get_dates_scenario_A:
  "get_dates_from_filename scenario_A =
     Inr (63713520000000000, 63716198400000000, 63714297600000000, 63716198400000000)"
  unfolding scenario_A_def by code_simp












section \<open>Duplicate resolution: the partition, the tie-break and the mid-point\<close>

lemma bind_err_Inr: "bind_err m f = Inr y \<longleftrightarrow> (\<exists>x. m = Inr x \<and> f x = Inr y)"
  by (cases m) auto

lemma days_in_month_bounds: "28 \<le> days_in_month y m \<and> days_in_month y m \<le> 31"
  by (simp add: days_in_month_def)

lemma days_before_month_bounds: "0 \<le> days_before_month y k \<and> days_before_month y k \<le> 31 * int k"
proof (induction k)
  case 0
  then show ?case by simp
next
  case (Suc k)
  then show ?case using days_in_month_bounds[of y "int k"] by auto
qed

lemma days_before_year_bounds:
  assumes "1 \<le> y" "y \<le> 9999"
  shows "0 \<le> days_before_year y \<and> days_before_year y \<le> 3700000"
proof -
  define z where "z = y - 1"
  have z: "0 \<le> z" "z \<le> 9998" using assms by (simp_all add: z_def)
  have "0 \<le> z div 4" "z div 4 \<le> z" using z by simp_all
  moreover have "0 \<le> z div 100" "z div 100 \<le> z" using z by simp_all
  moreover have "0 \<le> z div 400" "z div 400 \<le> z" using z by simp_all
  ultimately show ?thesis using z unfolding days_before_year_def z_def[symmetric] by linarith
qed

lemma mk_datetime_range:
  assumes "mk_datetime y m d = Inr t"
  shows "\<exists>k. t = k * US_PER_DAY \<and> 0 < k \<and> k < 4000000"
proof -
  from assms have r: "1 \<le> y" "y \<le> 9999" "1 \<le> m" "m \<le> 12" "1 \<le> d" "d \<le> days_in_month y m"
    and t: "t = (days_before_year y + days_before_month y (nat m) + d) * US_PER_DAY"
    by (auto simp: mk_datetime_def split: if_splits)
  have "d \<le> 31" using r(6) days_in_month_bounds[of y m] by linarith
  moreover have "0 \<le> days_before_month y (nat m) \<and> days_before_month y (nat m) \<le> 31 * 12"
    using days_before_month_bounds[of y "nat m"] r(3,4) by auto
  ultimately show ?thesis using t days_before_year_bounds[OF r(1,2)] r(5)
    by (intro exI[of _ "days_before_year y + days_before_month y (nat m) + d"]) auto
qed

lemma strptime_Ymd_mk:
  assumes "strptime_Ymd s = Inr t"
  shows "\<exists>y m d. mk_datetime y m d = Inr t"
proof -
  from assms obtain y1 y2 y3 y4 r where s: "s = y1 # y2 # y3 # y4 # r"
    unfolding strptime_Ymd_def by (simp split: list.splits)
  define cands where "cands = concat (map (\<lambda>(m, r'). map (\<lambda>(d, r''). (m, d, r'')) (match_day r')) (match_month r))"
  have eq: "strptime_Ymd s =
     (if is_digit y1 \<and> is_digit y2 \<and> is_digit y3 \<and> is_digit y4 then
        (case cands of [] \<Rightarrow> Inl ValueError
         | (m, d, rest) # _ \<Rightarrow>
             if rest \<noteq> [] then Inl ValueError
             else mk_datetime (1000 * digit_val y1 + 100 * digit_val y2 + 10 * digit_val y3 + digit_val y4) m d)
      else Inl ValueError)"
    unfolding strptime_Ymd_def cands_def s by simp
  show ?thesis
  proof (cases cands)
    case Nil
    then show ?thesis using assms eq by (simp split: if_splits)
  next
    case (Cons c cs)
    obtain m d rest where c: "c = (m, d, rest)" by (cases c) auto
    show ?thesis using assms eq Cons c by (auto split: if_splits)
  qed
qed

lemma strptime_Ymd_range:
  assumes "strptime_Ymd s = Inr t"
  shows "\<exists>k. t = k * US_PER_DAY \<and> 0 < k \<and> k < 4000000"
  using strptime_Ymd_mk[OF assms] mk_datetime_range by blast

lemma get_dates_from_filename_range:
  assumes "get_dates_from_filename u = Inr (a1, p1, a2, p2)"
  shows "(\<exists>k. a1 = k * US_PER_DAY \<and> 0 < k \<and> k < 4000000) \<and>
         (\<exists>k. a2 = k * US_PER_DAY \<and> 0 < k \<and> k < 4000000)"
proof -
  from assms obtain t3 t11 where "strptime_Ymd t3 = Inr a1" "strptime_Ymd t11 = Inr a2"
    unfolding get_dates_from_filename_def Let_def bind_err_Inr by auto
  then show ?thesis using strptime_Ymd_range by blast
qed

lemma half_days: "(n * US_PER_DAY) div 2 = n * 43200000000"
proof -
  have "n * (86400000000::int) = n * 43200000000 * 2" by simp
  then have "n * (86400000000::int) div 2 = n * 43200000000 * 2 div 2" by (rule arg_cong)
  also have "\<dots> = n * 43200000000" by (rule nonzero_mult_div_cancel_right) simp
  finally show ?thesis unfolding US_PER_DAY_def .
qed

lemma mk_timedelta_eq: "mk_timedelta n n = n * 43200000000 + n * 1000"
  by (simp add: mk_timedelta_def half_days)

lemma mid_date_of_eq:
  "mid_date_of a1 a2 = a2 + timedelta_days (a1 - a2) * 43200000000 + timedelta_days (a1 - a2) * 1000"
  by (simp add: mid_date_of_def Let_def mk_timedelta_eq)

lemma timedelta_days_whole: "timedelta_days (k1 * US_PER_DAY - k2 * US_PER_DAY) = k1 - k2"
proof -
  have "k1 * US_PER_DAY - k2 * US_PER_DAY = (k1 - k2) * US_PER_DAY"
    by (simp only: left_diff_distrib)
  then show ?thesis by (simp add: timedelta_days_def US_PER_DAY_def)
qed

lemma mid_date_of_days:
  "mid_date_of (k1 * US_PER_DAY) (k2 * US_PER_DAY) = 43200000000 * (k1 + k2) + 1000 * (k1 - k2)"
  unfolding mid_date_of_eq timedelta_days_whole by (simp add: US_PER_DAY_def algebra_simps)

lemma mid_date_of_days_inj:
  assumes "mid_date_of (k1 * US_PER_DAY) (k2 * US_PER_DAY) = mid_date_of (l1 * US_PER_DAY) (l2 * US_PER_DAY)"
    and "0 < k1" "k1 < 4000000" "0 < k2" "k2 < 4000000"
    and "0 < l1" "l1 < 4000000" "0 < l2" "l2 < 4000000"
  shows "k1 = l1 \<and> k2 = l2"
proof -
  define S where "S = (k1 + k2) - (l1 + l2)"
  define D where "D = (k1 - k2) - (l1 - l2)"
  have eq: "43200000 * S + D = 0"
    using assms(1) unfolding mid_date_of_days by (simp add: S_def D_def algebra_simps)
  have D: "- 8000000 < D" "D < 8000000" using assms(2-) by (simp_all add: D_def)
  have "S = 0"
  proof (rule ccontr)
    assume "S \<noteq> 0"
    then consider "1 \<le> S" | "S \<le> - 1" by linarith
    then show False using eq D by cases linarith+
  qed
  then have "D = 0" using eq by simp
  then show ?thesis using \<open>S = 0\<close> by (simp add: S_def D_def)
qed

lemma file_name_mid_date_inj:
  assumes "get_dates_from_filename u = Inr (a1, p1, a2, p2)"
    and "get_dates_from_filename v = Inr (b1, q1, b2, q2)"
    and "mid_date_of a1 a2 = mid_date_of b1 b2"
  shows "a1 = b1 \<and> a2 = b2"
proof -
  obtain k1 k2 where k: "a1 = k1 * US_PER_DAY" "0 < k1" "k1 < 4000000"
      "a2 = k2 * US_PER_DAY" "0 < k2" "k2 < 4000000"
    using get_dates_from_filename_range[OF assms(1)] by blast
  obtain l1 l2 where l: "b1 = l1 * US_PER_DAY" "0 < l1" "l1 < 4000000"
      "b2 = l2 * US_PER_DAY" "0 < l2" "l2 < 4000000"
    using get_dates_from_filename_range[OF assms(2)] by blast
  have "k1 = l1 \<and> k2 = l2"
    using mid_date_of_days_inj[of k1 k2 l1 l2] assms(3) k l by simp
  then show ?thesis using k l by simp
qed






text \<open>
  Claim C5 (the mid-point timestamp). For the dates read off a file name, the two
  acquisitions are a whole number of days apart, the mid-point timestamp is the second
  acquisition plus half that separation plus as many milliseconds as the separation has
  days, and two file names whose separations in days differ have different mid-point
  timestamps (also when their calendar mid-dates coincide).
\<close>

theorem mid_point_derivation:
  assumes "get_dates_from_filename u = Inr (a1, p1, a2, p2)"
    and "get_dates_from_filename v = Inr (b1, q1, b2, q2)"
  shows "a1 - a2 = timedelta_days (a1 - a2) * US_PER_DAY \<and>
         url_mid_date get_dates_from_filename u =
           Some (a2 + timedelta_days (a1 - a2) * (US_PER_DAY div 2) + timedelta_days (a1 - a2) * 1000) \<and>
         (timedelta_days (a1 - a2) \<noteq> timedelta_days (b1 - b2) \<longrightarrow>
            url_mid_date get_dates_from_filename u \<noteq> url_mid_date get_dates_from_filename v)"
proof -
  obtain k1 k2 where k: "a1 = k1 * US_PER_DAY" "a2 = k2 * US_PER_DAY"
    using get_dates_from_filename_range[OF assms(1)] by blast
  have "a1 - a2 = (k1 - k2) * US_PER_DAY" using k by (simp add: algebra_simps)
  then have whole: "a1 - a2 = timedelta_days (a1 - a2) * US_PER_DAY"
    by (simp add: timedelta_days_def US_PER_DAY_def)
  have mid: "url_mid_date get_dates_from_filename u =
      Some (a2 + timedelta_days (a1 - a2) * (US_PER_DAY div 2) + timedelta_days (a1 - a2) * 1000)"
    using assms(1) by (simp add: url_mid_date_def mid_date_of_eq US_PER_DAY_def)
  have "url_mid_date get_dates_from_filename u \<noteq> url_mid_date get_dates_from_filename v"
    if "timedelta_days (a1 - a2) \<noteq> timedelta_days (b1 - b2)"
  proof
    assume "url_mid_date get_dates_from_filename u = url_mid_date get_dates_from_filename v"
    then have "mid_date_of a1 a2 = mid_date_of b1 b2"
      using assms by (simp add: url_mid_date_def)
    then have "a1 = b1 \<and> a2 = b2" by (rule file_name_mid_date_inj[OF assms])
    then show False using that by simp
  qed
  then show ?thesis using whole mid by blast
qed

lemma get_dates_scenario_C:
  "get_dates_from_filename scenario_C =
     Inr (63713692800000000, 63716198400000000, 63714124800000000, 63716198400000000)"
  unfolding scenario_C_def by code_simp

theorem mid_point_derivation_witness:
  "get_dates_from_filename scenario_A =
     Inr (63713520000000000, 63716198400000000, 63714297600000000, 63716198400000000) \<and>
   get_dates_from_filename scenario_C =
     Inr (63713692800000000, 63716198400000000, 63714124800000000, 63716198400000000) \<and>
   timedelta_days (63713520000000000 - 63714297600000000) = - 9 \<and>
   timedelta_days (63713692800000000 - 63714124800000000) = - 5 \<and>
   url_mid_date get_dates_from_filename scenario_A = Some 63713908799991000 \<and>
   url_mid_date get_dates_from_filename scenario_A \<noteq>
     url_mid_date get_dates_from_filename scenario_C"
proof -
  have a: "timedelta_days (63713520000000000 - 63714297600000000) = - 9"
    and c: "timedelta_days (63713692800000000 - 63714124800000000) = - 5"
    by (simp_all add: timedelta_days_def US_PER_DAY_def)
  show ?thesis
    using mid_point_derivation[OF get_dates_scenario_A get_dates_scenario_C] a c
      get_dates_scenario_A get_dates_scenario_C
    by (simp add: url_mid_date_def mid_date_of_def mk_timedelta_def timedelta_days_def
        US_PER_DAY_def)
qed


end
